theory Spec2Isabelle
  imports Complex_Main "HOL-Library.AList" "HOL-Library.Char_ord" "HOL-Library.Sublist"
    "HOL-Library.Log_Nat"
begin

section \<open>Data model\<close>

text \<open>
  The classes of \<^verbatim>\<open>expense.py\<close> and \<^verbatim>\<open>person.py\<close> as records. Amounts are Python
  floats in the source. The functions that compute with them are given twice: in exact
  arithmetic over the reals, which decides every property that rounding cannot change (who
  pays whom, the signs and the number of the transfers, termination, the error of an empty
  ledger), and in double arithmetic, under the names that end in \<open>_f\<close>, for the properties
  that speak of exact sums. The field \<open>value\<close> is the amount recorded for an expense; the
  float that the double versions compute with is the double nearest to it. A \<^verbatim>\<open>datetime.date\<close>
  is its three fields; the library only builds dates with a year in 1..9999 and a month in
  1..12, which is \<open>valid_date\<close>. The identifier of an expense is drawn by \<^verbatim>\<open>uuid.uuid4()\<close>;
  the model takes it as an argument.
\<close>

record date =
  year :: nat
  month :: nat
  day :: nat

record expense =
  expense_id :: string
  invoice_id :: string
  description :: string
  "value" :: real
  expense_date :: date

record person =
  name :: string
  pays_for_two :: bool
  expenses :: "expense list"

record expense_manager =
  persons :: "person list"

datatype error = ValueError string | ZeroDivisionError

type_synonym ('k, 'v) dict = "('k \<times> 'v) list"




section \<open>The month key\<close>

text \<open>
  \<^verbatim>\<open>expense.expense_date.strftime("%b %Y").upper()\<close>. \<^verbatim>\<open>%b\<close> is the abbreviated month
  name of the C locale. \<^verbatim>\<open>%Y\<close> is the year as the C library prints it: CPython 3.11 on
  glibc hands the format to \<^verbatim>\<open>strftime(3)\<close>, which writes the year in decimal without
  leading zeros, so \<^verbatim>\<open>date(999, 1, 5)\<close> gives \<^verbatim>\<open>JAN 999\<close>. (Builds that pad the year to
  four digits differ from this model for years below 1000 only.) A month outside 1..12
  cannot occur in a date; the model gives it the empty name.
\<close>

definition month_abbr :: "nat \<Rightarrow> string" where
  "month_abbr m =
     (if m = 1 then ''Jan'' else if m = 2 then ''Feb'' else if m = 3 then ''Mar''
      else if m = 4 then ''Apr'' else if m = 5 then ''May'' else if m = 6 then ''Jun''
      else if m = 7 then ''Jul'' else if m = 8 then ''Aug'' else if m = 9 then ''Sep''
      else if m = 10 then ''Oct'' else if m = 11 then ''Nov'' else if m = 12 then ''Dec''
      else [])"

definition digit_char :: "nat \<Rightarrow> char" where
  "digit_char n = char_of (48 + n mod 10)"

fun decimal :: "nat \<Rightarrow> string" where
  "decimal n = (if n < 10 then [digit_char n] else decimal (n div 10) @ [digit_char n])"

declare decimal.simps [simp del]

definition year_digits :: "nat \<Rightarrow> string" where
  "year_digits y = decimal y"

definition upper_char :: "char \<Rightarrow> char" where
  "upper_char c =
     (if CHR ''a'' \<le> c \<and> c \<le> CHR ''z'' then char_of (of_char c - (32::nat)) else c)"

definition upper :: "string \<Rightarrow> string" where
  "upper s = map upper_char s"

definition strftime_b_Y :: "date \<Rightarrow> string" where
  "strftime_b_Y d = month_abbr (month d) @ '' '' @ year_digits (year d)"

definition month_key :: "date \<Rightarrow> string" where
  "month_key d = upper (strftime_b_Y d)"

section \<open>Ledger operations\<close>

text \<open>
  A method that mutates \<^verbatim>\<open>self\<close> takes the manager and returns the manager it leaves
  behind, next to the exception it raised, if any.
\<close>

definition add_person :: "string \<Rightarrow> bool \<Rightarrow> expense_manager \<Rightarrow> (error + unit) \<times> expense_manager" where
  "add_person nm two mgr =
     (if list_ex (\<lambda>p. name p = nm) (persons mgr)
      then (Inl (ValueError (''Person '' @ nm @ '' already exists.'')), mgr)
      else (Inr (), mgr\<lparr>persons := persons mgr @ [\<lparr>name = nm, pays_for_two = two, expenses = []\<rparr>]\<rparr>))"

definition person_add_expense :: "expense \<Rightarrow> person \<Rightarrow> person" where
  "person_add_expense e p = p\<lparr>expenses := expenses p @ [e]\<rparr>"

text \<open>
  \<^verbatim>\<open>next((p for p in self.persons if p.name == person_name), None)\<close> is the first person
  of that name; the object found is mutated in place, so the list changes at that position.
\<close>

fun update_first :: "('a \<Rightarrow> bool) \<Rightarrow> ('a \<Rightarrow> 'a) \<Rightarrow> 'a list \<Rightarrow> 'a list" where
  "update_first P f [] = []"
| "update_first P f (x # xs) = (if P x then f x # xs else x # update_first P f xs)"

definition add_expense ::
  "string \<Rightarrow> string \<Rightarrow> string \<Rightarrow> string \<Rightarrow> real \<Rightarrow> date \<Rightarrow> expense_manager \<Rightarrow> expense_manager" where
  "add_expense person_name uid inv_id descr v d mgr =
     (case find (\<lambda>p. name p = person_name) (persons mgr) of
        None \<Rightarrow> mgr
      | Some _ \<Rightarrow>
          (let e = \<lparr>expense_id = uid, invoice_id = inv_id, description = descr,
                    value = v, expense_date = d\<rparr>
           in mgr\<lparr>persons := update_first (\<lambda>p. name p = person_name)
                                 (person_add_expense e) (persons mgr)\<rparr>))"

definition delete_person :: "string \<Rightarrow> expense_manager \<Rightarrow> expense_manager" where
  "delete_person nm mgr = mgr\<lparr>persons := filter (\<lambda>p. name p \<noteq> nm) (persons mgr)\<rparr>"

section \<open>Monthly grouping\<close>

definition add_to_month :: "expense \<Rightarrow> (string, expense list) dict \<Rightarrow> (string, expense list) dict" where
  "add_to_month e d =
     (let m = month_key (expense_date e);
          d1 = (if map_of d m = None then AList.update m [] d else d)
      in AList.map_entry m (\<lambda>es. es @ [e]) d1)"

definition get_expenses_by_month :: "expense_manager \<Rightarrow> (string, expense list) dict" where
  "get_expenses_by_month mgr = fold (\<lambda>p d. fold add_to_month (expenses p) d) (persons mgr) []"

section \<open>Totals and balances\<close>

text \<open>In exact arithmetic; the section on double arithmetic has the rounded versions.\<close>

type_synonym total_row = "string \<times> real \<times> real \<times> real"

definition weight :: "person \<Rightarrow> nat" where
  "weight p = (if pays_for_two p then 2 else 1)"

definition total_paid_in :: "string \<Rightarrow> person \<Rightarrow> real" where
  "total_paid_in m p =
     sum_list (map value (filter (\<lambda>e. month_key (expense_date e) = m) (expenses p)))"

definition person_row :: "real \<Rightarrow> string \<Rightarrow> person \<Rightarrow> total_row" where
  "person_row split_amount m p =
     (let total_paid = total_paid_in m p;
          should_pay = split_amount * real (weight p);
          difference = total_paid - should_pay
      in (name p, total_paid, should_pay, difference))"

definition month_totals ::
  "person list \<Rightarrow> string \<Rightarrow> expense list \<Rightarrow> error + (total_row list \<times> (string, real) dict)" where
  "month_totals ps m es =
     (let total_expenses = sum_list (map value es);
          num_persons = sum_list (map weight ps)
      in if num_persons = 0 then Inl ZeroDivisionError
         else
           (let split_amount = total_expenses / real num_persons
            in Inr (fold (\<lambda>p (totals, balances).
                            (case person_row split_amount m p of
                               (nm, total_paid, should_pay, difference) \<Rightarrow>
                                 (totals @ [(nm, total_paid, should_pay, difference)],
                                  AList.update nm difference balances)))
                         ps ([], []))))"

fun totals_loop ::
  "person list \<Rightarrow> (string, expense list) dict \<Rightarrow>
   (string, total_row list) dict \<times> (string, (string, real) dict) dict \<Rightarrow>
   error + ((string, total_row list) dict \<times> (string, (string, real) dict) dict)" where
  "totals_loop ps [] acc = Inr acc"
| "totals_loop ps ((m, es) # rest) (totals_by_month, balances_by_month) =
     (case month_totals ps m es of
        Inl err \<Rightarrow> Inl err
      | Inr (totals, balances) \<Rightarrow>
          totals_loop ps rest
            (AList.update m totals totals_by_month, AList.update m balances balances_by_month))"

definition calculate_totals ::
  "expense_manager \<Rightarrow>
   error + ((string, total_row list) dict \<times> (string, (string, real) dict) dict)" where
  "calculate_totals mgr =
     (if persons mgr = [] then Inl (ValueError ''No persons available to calculate totals.'')
      else totals_loop (persons mgr) (get_expenses_by_month mgr) ([], []))"

section \<open>Settlements\<close>

text \<open>In exact arithmetic; the section on double arithmetic has the rounded versions.\<close>

type_synonym party = "string \<times> real"
type_synonym settlement = "string \<times> string \<times> real"
type_synonym settle_state = "party list \<times> party list \<times> settlement list"

text \<open>
  \<^verbatim>\<open>xs.sort(key=lambda x: x[1], reverse=True)\<close> is a stable sort into descending order
  of the amount: entries with equal amounts keep their order. That is the stable
  ascending sort on the negated amount.
\<close>

definition sort_desc :: "party list \<Rightarrow> party list" where
  "sort_desc xs = sort_key (\<lambda>x. - snd x) xs"

fun settle_cond :: "settle_state \<Rightarrow> bool" where
  "settle_cond (creditors, debtors, settlements) = (creditors \<noteq> [] \<and> debtors \<noteq> [])"

text \<open>One pass through the body of \<^verbatim>\<open>while creditors and debtors\<close>.\<close>

fun settle_body :: "settle_state \<Rightarrow> settle_state" where
  "settle_body ((creditor_name, creditor_balance) # creditors,
                (debtor_name, debtor_balance) # debtors, settlements) =
     (let amount = min creditor_balance debtor_balance;
          settlements' = settlements @ [(debtor_name, creditor_name, amount)]
      in if creditor_balance > debtor_balance
         then ((creditor_name, creditor_balance - amount) # creditors, debtors, settlements')
         else if debtor_balance > creditor_balance
         then (creditors, (debtor_name, debtor_balance - amount) # debtors, settlements')
         else (creditors, debtors, settlements'))"
| "settle_body s = s"

definition state_size :: "settle_state \<Rightarrow> nat" where
  "state_size s = (case s of (creditors, debtors, settlements) \<Rightarrow> length creditors + length debtors)"

function settle_loop :: "settle_state \<Rightarrow> settle_state" where
  "settle_loop s = (if settle_cond s then settle_loop (settle_body s) else s)"
  by pat_completeness auto
termination
proof (relation "measure state_size")
  fix s :: settle_state
  assume "settle_cond s"
  then show "(settle_body s, s) \<in> measure state_size"
    by (cases s rule: settle_body.cases) (auto simp: state_size_def Let_def)
qed simp

declare settle_loop.simps [simp del]

definition month_settlements :: "(string, real) dict \<Rightarrow> settlement list" where
  "month_settlements balances =
     (let creditors = sort_desc (map (\<lambda>(nm, balance). (nm, balance)) (filter (\<lambda>(nm, balance). balance > 0) balances));
          debtors = sort_desc (map (\<lambda>(nm, balance). (nm, - balance)) (filter (\<lambda>(nm, balance). balance < 0) balances))
      in snd (snd (settle_loop (creditors, debtors, []))))"

definition calculate_settlements ::
  "(string, (string, real) dict) dict \<Rightarrow> (string, settlement list) dict" where
  "calculate_settlements balances_by_month =
     fold (\<lambda>(m, balances) settlements_by_month.
             AList.update m (month_settlements balances) settlements_by_month)
          balances_by_month []"


section \<open>Double arithmetic\<close>

text \<open>
  A Python \<^verbatim>\<open>float\<close> is an IEEE 754 binary64 number: a finite value, an infinity or a
  NaN. The two zeros compare equal and no operation of this program tells them apart, so
  they are one value here. Every arithmetic operation returns the exact result rounded to
  the nearest representable number, ties to the even significand; a result of magnitude
  \<open>2 ^ 1024\<close> or more after rounding is an infinity.
\<close>

datatype double = Finite real | PInf | NInf | NaN

definition pow2 :: "int \<Rightarrow> real" where
  "pow2 k = (if 0 \<le> k then 2 ^ nat k else 1 / 2 ^ nat (- k))"

text \<open>\<open>ilog2 x\<close> is the integer \<open>e\<close> with \<open>2 ^ e \<le> x < 2 ^ (e + 1)\<close>, for \<open>x > 0\<close>.\<close>

definition ilog2 :: "real \<Rightarrow> int" where
  "ilog2 x = (if 1 \<le> x then bitlen \<lfloor>x\<rfloor> - 1 else - bitlen (\<lceil>1 / x\<rceil> - 1))"

definition round_half_even :: "real \<Rightarrow> int" where
  "round_half_even y =
     (let f = \<lfloor>y\<rfloor>; r = y - of_int f
      in if r < 1 / 2 then f else if 1 / 2 < r then f + 1
         else if even f then f else f + 1)"

text \<open>
  The spacing of the doubles around \<open>x\<close> is \<open>2 ^ (e - 52)\<close> with \<open>e = ilog2 \<bar>x\<bar>\<close>, and
  \<open>2 ^ (- 1074)\<close> in the subnormal range.
\<close>

definition fl64 :: "real \<Rightarrow> real" where
  "fl64 x =
     (if x = 0 then 0
      else (let q = max (ilog2 \<bar>x\<bar> - 52) (- 1074)
            in of_int (round_half_even (x / pow2 q)) * pow2 q))"

definition to_double :: "real \<Rightarrow> double" where
  "to_double x =
     (let v = fl64 x
      in if 2 ^ 1024 \<le> \<bar>v\<bar> then (if 0 < v then PInf else NInf) else Finite v)"


fun fadd :: "double \<Rightarrow> double \<Rightarrow> double" where
  "fadd (Finite x) (Finite y) = to_double (x + y)"
| "fadd NaN b = NaN"
| "fadd a NaN = NaN"
| "fadd PInf NInf = NaN"
| "fadd NInf PInf = NaN"
| "fadd PInf b = PInf"
| "fadd a PInf = PInf"
| "fadd NInf b = NInf"
| "fadd a NInf = NInf"








section \<open>The totals and the settlements in double arithmetic\<close>





















text \<open>A whole number below \<open>2 ^ 53\<close> in magnitude: every such number is a double.\<close>

definition whole :: "real \<Rightarrow> bool" where
  "whole x = (\<exists>k::int. x = of_int k \<and> \<bar>k\<bar> < 2 ^ 53)"


section \<open>What a list of transfers does to the balances\<close>

text \<open>
  The claims about settlements speak of applying the transfers: the debtor's balance, which
  is negative, rises by the amount, and the creditor's balance, which is positive, falls by
  it. A name that is not a key of the balance map has balance 0.
\<close>

definition balance_of :: "(string, real) dict \<Rightarrow> string \<Rightarrow> real" where
  "balance_of balances n = (case map_of balances n of None \<Rightarrow> 0 | Some b \<Rightarrow> b)"

fun apply_transfer :: "settlement \<Rightarrow> (string \<Rightarrow> real) \<Rightarrow> (string \<Rightarrow> real)" where
  "apply_transfer (debtor, creditor, amount) f =
     (let g = f(debtor := f debtor + amount) in g(creditor := g creditor - amount))"

definition settles :: "(string, real) dict \<Rightarrow> settlement list \<Rightarrow> bool" where
  "settles balances ts =
     (list_all (\<lambda>(d, c, a). a > 0) ts \<and>
      list_all (\<lambda>n. fold apply_transfer ts (balance_of balances) n = 0) (map fst balances))"


section \<open>Invariants of the settlement loop\<close>

definition creditors_of :: "(string, real) dict \<Rightarrow> party list" where
  "creditors_of balances = map (\<lambda>(nm, balance). (nm, balance)) (filter (\<lambda>(nm, balance). balance > 0) balances)"

definition debtors_of :: "(string, real) dict \<Rightarrow> party list" where
  "debtors_of balances = map (\<lambda>(nm, balance). (nm, - balance)) (filter (\<lambda>(nm, balance). balance < 0) balances)"










section \<open>Grouping and totals: auxiliary notions\<close>

definition all_expenses :: "expense_manager \<Rightarrow> expense list" where
  "all_expenses mgr = concat (map expenses (persons mgr))"

definition in_month :: "string \<Rightarrow> expense list \<Rightarrow> expense list" where
  "in_month k es = filter (\<lambda>e. month_key (expense_date e) = k) es"

definition grouped :: "(string, expense list) dict \<Rightarrow> expense list \<Rightarrow> bool" where
  "grouped d xs =
     (distinct (map fst d) \<and>
      (\<forall>k. map_of d k = (if in_month k xs = [] then None else Some (in_month k xs))))"




definition month_rows :: "person list \<Rightarrow> string \<Rightarrow> expense list \<Rightarrow> total_row list" where
  "month_rows ps m es =
     map (person_row (sum_list (map value es) / real (sum_list (map weight ps))) m) ps"

definition month_balances :: "person list \<Rightarrow> string \<Rightarrow> expense list \<Rightarrow> (string, real) dict" where
  "month_balances ps m es =
     fold (\<lambda>p. AList.update (name p)
                  (total_paid_in m p -
                   sum_list (map value es) / real (sum_list (map weight ps)) * real (weight p)))
          ps []"

section \<open>Example ledgers\<close>

definition ledger_alice_bob :: expense_manager where
  "ledger_alice_bob =
     \<lparr>persons =
        [\<lparr>name = ''Alice'', pays_for_two = False,
          expenses = [\<lparr>expense_id = ''e1'', invoice_id = ''INV-1'', description = ''rent'',
                       value = 90, expense_date = \<lparr>year = 2024, month = 3, day = 15\<rparr>\<rparr>]\<rparr>,
         \<lparr>name = ''Bob'', pays_for_two = True, expenses = []\<rparr>]\<rparr>"




definition ledger_x :: expense_manager where
  "ledger_x = \<lparr>persons = [\<lparr>name = ''X'', pays_for_two = False, expenses = []\<rparr>]\<rparr>"




section \<open>The settlement loop: termination and invariants\<close>

lemma settle_body_decreases: "settle_cond s \<Longrightarrow> state_size (settle_body s) < state_size s"
  by (cases s rule: settle_body.cases) (auto simp: state_size_def Let_def)

lemma settle_body_size_bounds:
  "settle_cond s \<Longrightarrow> state_size s \<le> state_size (settle_body s) + 2"
  by (cases s rule: settle_body.cases) (auto simp: state_size_def Let_def)

lemma settle_loop_funpow: "\<exists>n\<le>state_size s. settle_loop s = (settle_body ^^ n) s"
proof (induction s rule: settle_loop.induct)
  case (1 s)
  show ?case
  proof (cases "settle_cond s")
    case True
    from 1 [OF True] obtain n where n: "n \<le> state_size (settle_body s)"
      and eq: "settle_loop (settle_body s) = (settle_body ^^ n) (settle_body s)" by blast
    have "settle_loop s = (settle_body ^^ Suc n) s"
      using True eq by (simp add: settle_loop.simps [of s] funpow_swap1)
    moreover have "Suc n \<le> state_size s"
      using n settle_body_decreases [OF True] by simp
    ultimately show ?thesis by blast
  next
    case False
    then have "settle_loop s = (settle_body ^^ 0) s" by (simp add: settle_loop.simps [of s])
    then show ?thesis by blast
  qed
qed








lemma settle_loop_exit: "\<not> settle_cond (settle_loop s)"
proof (induction s rule: settle_loop.induct)
  case (1 s)
  then show ?case by (cases "settle_cond s") (simp_all add: settle_loop.simps [of s])
qed










lemma month_settlements_alt:
  "month_settlements balances =
     snd (snd (settle_loop (sort_desc (creditors_of balances), sort_desc (debtors_of balances), [])))"
  by (simp add: month_settlements_def creditors_of_def debtors_of_def)






lemma fold_update_lookup:
  "distinct (map fst xs) \<Longrightarrow>
   map_of (fold (\<lambda>(k, v) acc. AList.update k (f k v) acc) xs acc0) k =
     (case map_of xs k of None \<Rightarrow> map_of acc0 k | Some v \<Rightarrow> Some (f k v))"
proof (induction xs arbitrary: acc0)
  case Nil
  then show ?case by simp
next
  case (Cons x xs)
  obtain k0 v0 where x: "x = (k0, v0)" by (cases x)
  have "k0 \<notin> fst ` set xs" using Cons.prems x by simp
  then have none: "map_of xs k0 = None" by (simp add: map_of_eq_None_iff)
  show ?case using Cons x none
    by (auto simp: update_conv' split: option.splits)
qed

lemma calculate_settlements_lookup:
  "distinct (map fst bbm) \<Longrightarrow>
   map_of (calculate_settlements bbm) m = map_option month_settlements (map_of bbm m)"
  unfolding calculate_settlements_def
  using fold_update_lookup [of bbm "\<lambda>k. month_settlements" "[]" m]
  by (simp split: option.splits)





lemma settle_loop_length:
  "length (snd (snd (settle_loop s))) \<le> length (snd (snd s)) + (state_size s - 1)"
proof (induction s rule: settle_loop.induct)
  case (1 s)
  show ?case
  proof (cases "settle_cond s")
    case True
    have len: "length (snd (snd (settle_body s))) = Suc (length (snd (snd s)))"
      using True by (cases s rule: settle_body.cases) (auto simp: Let_def)
    have two: "2 \<le> state_size s"
      using True by (cases s rule: settle_body.cases) (auto simp: state_size_def)
    have "length (snd (snd (settle_loop (settle_body s)))) \<le>
            length (snd (snd (settle_body s))) + (state_size (settle_body s) - 1)"
      using 1 True by blast
    then show ?thesis
      using len two settle_body_decreases [OF True] True
      by (simp add: settle_loop.simps [of s])
  next
    case False
    then show ?thesis by (simp add: settle_loop.simps [of s])
  qed
qed

lemma length_parties:
  "length (creditors_of bal) + length (debtors_of bal) = length (filter (\<lambda>(n, b). b \<noteq> 0) bal)"
  by (induction bal) (auto simp: creditors_of_def debtors_of_def)

lemma month_settlements_length:
  "length (month_settlements bal) \<le> length (filter (\<lambda>(n, b). b \<noteq> 0) bal) - 1"
  using settle_loop_length [of "(sort_desc (creditors_of bal), sort_desc (debtors_of bal), [])"]
        length_parties [of bal]
  by (simp add: month_settlements_alt state_size_def sort_desc_def)

section \<open>Grouping, month keys and totals: lemmas\<close>

lemma map_of_add_to_month:
  "map_of (add_to_month e d) =
     (map_of d)(month_key (expense_date e) \<mapsto>
        (case map_of d (month_key (expense_date e)) of None \<Rightarrow> [] | Some es \<Rightarrow> es) @ [e])"
  by (auto simp: add_to_month_def Let_def map_of_map_entry update_conv' fun_eq_iff)

lemma distinct_add_to_month:
  "distinct (map fst d) \<Longrightarrow> distinct (map fst (add_to_month e d))"
  by (simp add: add_to_month_def Let_def distinct_map_entry distinct_update)

lemma grouped_add_to_month:
  assumes "grouped d xs"
  shows "grouped (add_to_month e d) (xs @ [e])"
proof -
  have "map_of (add_to_month e d) k =
          (if in_month k (xs @ [e]) = [] then None else Some (in_month k (xs @ [e])))" for k
    using assms by (simp add: grouped_def map_of_add_to_month in_month_def)
  then show ?thesis
    using assms distinct_add_to_month [of d e] by (simp add: grouped_def)
qed

lemma grouped_fold_add:
  "grouped d xs \<Longrightarrow> grouped (fold add_to_month es d) (xs @ es)"
proof (induction es arbitrary: d xs)
  case Nil
  then show ?case by simp
next
  case (Cons e es)
  from Cons.IH [OF grouped_add_to_month [OF Cons.prems, of e]] show ?case by simp
qed

lemma grouped_fold_persons:
  "grouped d xs \<Longrightarrow>
   grouped (fold (\<lambda>p d. fold add_to_month (expenses p) d) ps d) (xs @ concat (map expenses ps))"
proof (induction ps arbitrary: d xs)
  case Nil
  then show ?case by simp
next
  case (Cons p ps)
  from Cons.IH [OF grouped_fold_add [OF Cons.prems, of "expenses p"]] show ?case by simp
qed

lemma grouped_get_expenses_by_month: "grouped (get_expenses_by_month mgr) (all_expenses mgr)"
  using grouped_fold_persons [of "[]" "[]" "persons mgr"]
  by (simp add: get_expenses_by_month_def all_expenses_def grouped_def in_month_def)













lemma weight_pos: "0 < weight p"
  by (simp add: weight_def)


lemma fold_rows:
  "fold (\<lambda>p (totals, balances).
           (case person_row sa m p of
              (nm, total_paid, should_pay, difference) \<Rightarrow>
                (totals @ [(nm, total_paid, should_pay, difference)],
                 AList.update nm difference balances)))
        ps (ts, bs) =
     (ts @ map (person_row sa m) ps,
      fold (\<lambda>p. AList.update (name p) (total_paid_in m p - sa * real (weight p))) ps bs)"
  by (induction ps arbitrary: ts bs) (simp_all add: person_row_def Let_def)

lemma month_totals_ok:
  "ps \<noteq> [] \<Longrightarrow> month_totals ps m es = Inr (month_rows ps m es, month_balances ps m es)"
  by (simp add: month_totals_def Let_def fold_rows month_rows_def month_balances_def weight_pos
        ex_in_conv)

lemma totals_loop_ok:
  "ps \<noteq> [] \<Longrightarrow>
   totals_loop ps d (t0, b0) =
     Inr (fold (\<lambda>(m, es) acc. AList.update m (month_rows ps m es) acc) d t0,
          fold (\<lambda>(m, es) acc. AList.update m (month_balances ps m es) acc) d b0)"
proof (induction d arbitrary: t0 b0)
  case Nil
  then show ?case by simp
next
  case (Cons x d)
  obtain m es where x: "x = (m, es)" by (cases x)
  show ?case using Cons by (simp add: x month_totals_ok)
qed





lemma grouped_empty:
  assumes "grouped d []"
  shows "d = []"
proof (cases d)
  case Nil
  then show ?thesis .
next
  case (Cons x xs)
  then have "map_of d (fst x) = Some (snd x)" by simp
  moreover have "map_of d (fst x) = None" using assms by (simp add: grouped_def in_month_def)
  ultimately show ?thesis by simp
qed

section \<open>Double arithmetic on whole numbers is exact\<close>


lemma round_half_even_int: "round_half_even (of_int j) = j"
  by (simp add: round_half_even_def)

lemma ilog2_int:
  assumes "0 < n" and "n < 2 ^ 53"
  shows "0 \<le> ilog2 (of_int n)" and "ilog2 (of_int n) \<le> 52"
proof -
  have b: "1 \<le> bitlen n" using assms(1) by (simp add: bitlen_alt_def)
  have "bitlen n \<le> 53" using assms by (simp add: bitlen_le_iff_power)
  then show "0 \<le> ilog2 (of_int n)" "ilog2 (of_int n) \<le> 52"
    using assms(1) b by (simp_all add: ilog2_def)
qed

lemma fl64_int:
  assumes "\<bar>n\<bar> < 2 ^ 53"
  shows "fl64 (of_int n) = of_int n"
proof (cases "n = 0")
  case True
  then show ?thesis by (simp add: fl64_def)
next
  case False
  then have pos: "0 < \<bar>n\<bar>" by simp
  define q where "q = ilog2 (of_int \<bar>n\<bar>) - 52"
  have q: "- 52 \<le> q" "q \<le> 0"
    using ilog2_int [OF pos assms] by (simp_all add: q_def)
  define k where "k = nat (- q)"
  have p: "pow2 q = 1 / 2 ^ k"
    using q by (cases "q = 0") (simp_all add: pow2_def k_def)
  have m: "max q (- 1074) = q" using q by simp
  have "real_of_int n / pow2 q = of_int (n * 2 ^ k)" by (simp add: p)
  then have "round_half_even (real_of_int n / pow2 q) = n * 2 ^ k"
    by (simp only: round_half_even_int)
  then have "of_int (round_half_even (real_of_int n / pow2 q)) * pow2 q = of_int n"
    by (simp add: p)
  moreover have "\<bar>real_of_int n\<bar> = of_int \<bar>n\<bar>" by simp
  ultimately show ?thesis
    using False unfolding fl64_def Let_def by (simp only: q_def [symmetric] m) simp
qed

lemma to_double_int:
  assumes "\<bar>n\<bar> < 2 ^ 53"
  shows "to_double (of_int n) = Finite (of_int n)"
proof -
  have "\<bar>real_of_int n\<bar> < 2 ^ 53" using assms
    by (metis of_int_abs of_int_less_numeral_power_cancel_iff)
  also have "(2::real) ^ 53 \<le> 2 ^ 1024" by (rule power_increasing) simp_all
  finally show ?thesis by (simp add: to_double_def fl64_int [OF assms])
qed

lemma to_double_whole: "whole x \<Longrightarrow> to_double x = Finite x"
  by (auto simp: whole_def to_double_int)


lemma whole_zero: "whole 0"
  unfolding whole_def by (rule exI [of _ 0]) simp




lemma fadd_whole: "whole (x + y) \<Longrightarrow> fadd (Finite x) (Finite y) = Finite (x + y)"
  by (simp add: to_double_whole)



section \<open>The settlement loop on whole numbers\<close>














section \<open>The totals on whole numbers\<close>





lemma abs_total_filter:
  "sum_list (map (\<lambda>e. \<bar>value e\<bar>) (filter P es)) \<le> sum_list (map (\<lambda>e. \<bar>value e\<bar>) es)"
  by (induction es) auto












section \<open>Claims about the settlement loop\<close>

text \<open>
  C9. The greedy settlement loop terminates on every state: one pass of the body takes two
  parties off the lists and puts at most one back, so the combined length of the creditor
  and debtor lists drops by one or two; the loop is the body iterated at most that many
  times, and it stops in a state where one of the lists is empty.
\<close>

theorem settle_loop_terminates:
  "(settle_cond s \<longrightarrow>
      state_size (settle_body s) < state_size s \<and>
      state_size s \<le> state_size (settle_body s) + 2) \<and>
   (\<exists>n\<le>state_size s. settle_loop s = (settle_body ^^ n) s) \<and>
   \<not> settle_cond (settle_loop s)"
  using settle_body_decreases settle_body_size_bounds settle_loop_funpow settle_loop_exit
  by blast

theorem settle_loop_terminates_witness:
  "settle_cond ([(''Alice'', 60)], [(''Bob'', 60)], []) \<and>
   state_size (settle_body ([(''Alice'', 60)], [(''Bob'', 60)], [])) <
     state_size ([(''Alice'', 60)], [(''Bob'', 60)], []) \<and>
   (\<exists>n\<le>2. settle_loop ([(''Alice'', 60)], [(''Bob'', 60)], []) =
      (settle_body ^^ n) ([(''Alice'', 60)], [(''Bob'', 60)], [])) \<and>
   \<not> settle_cond (settle_loop ([(''Alice'', 60)], [(''Bob'', 60)], []))"
  using settle_loop_terminates [of "([(''Alice'', 60)], [(''Bob'', 60)], [])"]
  by (simp add: state_size_def numeral_2_eq_2)






text \<open>
  C3. The claim that the emitted list is of minimal size fails: for the balances
  A = 3, B = 2, C = 2, D = -4, E = -3 the loop emits four transfers, and the three transfers
  E to A 3, D to B 2, D to C 2 settle the same balances.
\<close>

theorem settlements_not_minimal:
  "calculate_settlements
     [(''MAR 2024'', [(''A'', 3), (''B'', 2), (''C'', 2), (''D'', - 4), (''E'', - 3)])] =
     [(''MAR 2024'', [(''D'', ''A'', 3), (''D'', ''B'', 1), (''E'', ''B'', 1), (''E'', ''C'', 2)])] \<and>
   sum_list (map snd [(''A'', 3), (''B'', 2), (''C'', 2), (''D'', - 4), (''E'', - 3 :: real)]) = 0 \<and>
   settles [(''A'', 3), (''B'', 2), (''C'', 2), (''D'', - 4), (''E'', - 3)]
     [(''E'', ''A'', 3), (''D'', ''B'', 2), (''D'', ''C'', 2)] \<and>
   length [(''E'', ''A'', 3 :: real), (''D'', ''B'', 2), (''D'', ''C'', 2)] = 3"
  by code_simp

text \<open>
  C3, as the code has it. The list emitted for a month has at most \<open>k - 1\<close> transfers, where
  \<open>k\<close> is the number of participants of that month with a non-zero balance (and none when
  \<open>k = 0\<close>); it is not always the shortest list that settles the balances.
\<close>

theorem settlements_length_bound:
  assumes "distinct (map fst balances_by_month)"
    and "map_of balances_by_month m = Some balances"
  shows "\<exists>ts. map_of (calculate_settlements balances_by_month) m = Some ts \<and>
           length ts \<le> length (filter (\<lambda>(n, b). b \<noteq> 0) balances) - 1"
  using assms month_settlements_length [of balances]
  by (simp add: calculate_settlements_lookup)

theorem settlements_length_bound_witness:
  "map_of (calculate_settlements
      [(''MAR 2024'', [(''P'', 30), (''Q'', 20), (''R'', - 25), (''S'', - 25)])]) ''MAR 2024'' =
     Some [(''R'', ''P'', 25), (''S'', ''P'', 5), (''S'', ''Q'', 20)] \<and>
   length [(''R'', ''P'', 25 :: real), (''S'', ''P'', 5), (''S'', ''Q'', 20)] \<le>
     length (filter (\<lambda>(n, b). b \<noteq> 0) [(''P'', 30), (''Q'', 20), (''R'', - 25), (''S'', - 25 :: real)]) - 1"
proof -
  let ?bal = "[(''P'', 30), (''Q'', 20), (''R'', - 25), (''S'', - 25 :: real)]"
  let ?bbm = "[(''MAR 2024'', ?bal)]"
  have h1: "distinct (map fst ?bbm)" by simp
  have h2: "map_of ?bbm ''MAR 2024'' = Some ?bal" by simp
  have ev: "map_of (calculate_settlements ?bbm) ''MAR 2024'' =
              Some [(''R'', ''P'', 25), (''S'', ''P'', 5), (''S'', ''Q'', 20)]"
    by code_simp
  from settlements_length_bound [OF h1 h2] show ?thesis
    unfolding ev by simp
qed

section \<open>Claims about grouping and totals\<close>

lemma calculate_totals_ok:
  assumes "persons mgr \<noteq> []"
  shows "calculate_totals mgr =
     Inr (fold (\<lambda>(m, es) acc. AList.update m (month_rows (persons mgr) m es) acc)
            (get_expenses_by_month mgr) [],
          fold (\<lambda>(m, es) acc. AList.update m (month_balances (persons mgr) m es) acc)
            (get_expenses_by_month mgr) [])"
  using assms by (simp add: calculate_totals_def totals_loop_ok)




text \<open>
  C5. \<open>calculate_totals\<close> raises exactly when there is no participant, and then it is the
  \<open>ValueError\<close> of the check at its head; with participants and no expense at all it
  returns two empty dictionaries.
\<close>

theorem calculate_totals_fails_iff_empty:
  "((\<exists>err. calculate_totals mgr = Inl err) \<longleftrightarrow> persons mgr = []) \<and>
   (persons mgr = [] \<longrightarrow>
      calculate_totals mgr = Inl (ValueError ''No persons available to calculate totals.'')) \<and>
   (persons mgr \<noteq> [] \<and> all_expenses mgr = [] \<longrightarrow> calculate_totals mgr = Inr ([], []))"
proof -
  have a: "calculate_totals mgr = Inl (ValueError ''No persons available to calculate totals.'')"
    if "persons mgr = []"
    using that by (simp add: calculate_totals_def)
  have b: "\<not> (\<exists>err. calculate_totals mgr = Inl err)" if "persons mgr \<noteq> []"
    using calculate_totals_ok [OF that] by simp
  have c: "calculate_totals mgr = Inr ([], [])" if "persons mgr \<noteq> []" "all_expenses mgr = []"
  proof -
    have "get_expenses_by_month mgr = []"
      using grouped_get_expenses_by_month [of mgr] that(2) by (simp add: grouped_empty)
    then show ?thesis using calculate_totals_ok [OF that(1)] by simp
  qed
  show ?thesis using a b c by blast
qed

theorem calculate_totals_fails_iff_empty_witness:
  "calculate_totals \<lparr>persons = []\<rparr> =
     Inl (ValueError ''No persons available to calculate totals.'') \<and>
   persons ledger_x \<noteq> [] \<and> all_expenses ledger_x = [] \<and>
   calculate_totals ledger_x = Inr ([], [])"
  using calculate_totals_fails_iff_empty [of "\<lparr>persons = []\<rparr>"]
        calculate_totals_fails_iff_empty [of ledger_x]
  by (simp add: ledger_x_def all_expenses_def)




section \<open>Claims about the ledger operations\<close>

text \<open>
  C6. \<open>add_person\<close> raises the \<open>ValueError\<close> for a duplicate when a participant of exactly
  that name exists, and then the manager is unchanged; otherwise it raises nothing and the
  collection is the old one with a new participant of that name, that flag and no expenses
  at its end.
\<close>

theorem add_person_duplicate_or_append:
  "((\<exists>p\<in>set (persons mgr). name p = nm) \<longrightarrow>
      add_person nm two mgr = (Inl (ValueError (''Person '' @ nm @ '' already exists.'')), mgr) \<and>
      length (persons (snd (add_person nm two mgr))) = length (persons mgr)) \<and>
   ((\<forall>p\<in>set (persons mgr). name p \<noteq> nm) \<longrightarrow>
      fst (add_person nm two mgr) = Inr () \<and>
      persons (snd (add_person nm two mgr)) =
        persons mgr @ [\<lparr>name = nm, pays_for_two = two, expenses = []\<rparr>])"
  by (auto simp: add_person_def list_ex_iff)

theorem add_person_duplicate_or_append_witness:
  "add_person ''X'' False \<lparr>persons = []\<rparr> = (Inr (), ledger_x) \<and>
   add_person ''X'' False ledger_x = (Inl (ValueError ''Person X already exists.''), ledger_x) \<and>
   length (persons (snd (add_person ''X'' False ledger_x))) = 1"
proof -
  have "\<forall>p\<in>set (persons \<lparr>persons = []\<rparr>). name p \<noteq> ''X''" by simp
  moreover have "\<exists>p\<in>set (persons ledger_x). name p = ''X''" by (simp add: ledger_x_def)
  ultimately show ?thesis
    using add_person_duplicate_or_append [of "\<lparr>persons = []\<rparr>" "''X''" False]
          add_person_duplicate_or_append [of ledger_x "''X''" False]
    by (cases "add_person ''X'' False \<lparr>persons = []\<rparr>") (simp_all add: ledger_x_def)
qed

text \<open>
  C7. \<open>add_expense\<close> with a name that no participant has returns the manager as it was.
  With a name that resolves, the first participant of that name gets the new expense at
  the end of its expenses, and every other participant is as before.
\<close>

theorem add_expense_noop_or_append:
  "((\<forall>p\<in>set (persons mgr). name p \<noteq> person_name) \<longrightarrow>
      add_expense person_name uid inv_id descr v d mgr = mgr) \<and>
   (persons mgr = pre @ p # post \<and> name p = person_name \<and>
    (\<forall>q\<in>set pre. name q \<noteq> person_name) \<longrightarrow>
      persons (add_expense person_name uid inv_id descr v d mgr) =
        pre @ p\<lparr>expenses := expenses p @
                 [\<lparr>expense_id = uid, invoice_id = inv_id, description = descr,
                   value = v, expense_date = d\<rparr>]\<rparr> # post)"
proof -
  have none: "find (\<lambda>p. name p = person_name) (persons mgr) = None"
    if "\<forall>p\<in>set (persons mgr). name p \<noteq> person_name"
    using that by (simp add: find_None_iff)
  have upd: "update_first P f (pre @ p # post) = pre @ f p # post"
    if "\<forall>q\<in>set pre. \<not> P q" "P p" for P :: "person \<Rightarrow> bool" and f
    using that by (induction pre) simp_all
  have some: "find (\<lambda>p. name p = person_name) (persons mgr) \<noteq> None"
    if "persons mgr = pre @ p # post" "name p = person_name"
    using that by (auto simp: find_None_iff)
  show ?thesis
    using none some upd [of "\<lambda>q. name q = person_name"]
    by (auto simp: add_expense_def person_add_expense_def Let_def split: option.splits)
qed

theorem add_expense_noop_or_append_witness:
  "add_expense ''Carol'' ''e9'' ''INV-9'' ''gas'' 10 \<lparr>year = 2024, month = 5, day = 2\<rparr>
     ledger_alice_bob = ledger_alice_bob \<and>
   map (map expense_id \<circ> expenses)
     (persons (add_expense ''Bob'' ''e9'' ''INV-9'' ''gas'' 10 \<lparr>year = 2024, month = 5, day = 2\<rparr>
        ledger_alice_bob)) = [[''e1''], [''e9'']]"
proof -
  let ?d = "\<lparr>year = 2024, month = 5, day = 2\<rparr>"
  let ?alice = "\<lparr>name = ''Alice'', pays_for_two = False,
          expenses = [\<lparr>expense_id = ''e1'', invoice_id = ''INV-1'', description = ''rent'',
                       value = 90, expense_date = \<lparr>year = 2024, month = 3, day = 15\<rparr>\<rparr>]\<rparr>"
  let ?bob = "\<lparr>name = ''Bob'', pays_for_two = True, expenses = []\<rparr>"
  have h1: "\<forall>p\<in>set (persons ledger_alice_bob). name p \<noteq> ''Carol''"
    by (simp add: ledger_alice_bob_def)
  have h2: "persons ledger_alice_bob = [?alice] @ ?bob # [] \<and> name ?bob = ''Bob'' \<and>
            (\<forall>q\<in>set [?alice]. name q \<noteq> ''Bob'')"
    by (simp add: ledger_alice_bob_def)
  show ?thesis
    using add_expense_noop_or_append [of ledger_alice_bob "''Carol''" "''e9''" "''INV-9''" "''gas''" 10 ?d]
          add_expense_noop_or_append [of ledger_alice_bob "''Bob''" "''e9''" "''INV-9''" "''gas''" 10 ?d
             "[?alice]" ?bob "[]"] h1 h2
    by simp
qed

text \<open>
  C10. \<open>delete_person\<close> keeps, in their order and unchanged, exactly the participants whose
  name differs from the given one, so those of that name go together with their expenses;
  when nobody has the name, the manager is unchanged. No error is raised.
\<close>

theorem delete_person_removes_exactly:
  "(\<forall>p\<in>set (persons (delete_person nm mgr)). name p \<noteq> nm) \<and>
   (\<forall>p\<in>set (persons mgr). name p \<noteq> nm \<longrightarrow> p \<in> set (persons (delete_person nm mgr))) \<and>
   subseq (persons (delete_person nm mgr)) (persons mgr) \<and>
   length (persons (delete_person nm mgr)) + length (filter (\<lambda>p. name p = nm) (persons mgr)) =
     length (persons mgr) \<and>
   ((\<forall>p\<in>set (persons mgr). name p \<noteq> nm) \<longrightarrow> delete_person nm mgr = mgr)"
proof -
  have "length (filter (\<lambda>p. name p \<noteq> nm) ps) + length (filter (\<lambda>p. name p = nm) ps) = length ps"
    for ps :: "person list"
    by (induction ps) simp_all
  moreover have "filter (\<lambda>p. name p \<noteq> nm) (persons mgr) = persons mgr"
    if "\<forall>p\<in>set (persons mgr). name p \<noteq> nm"
    using that by (simp add: filter_id_conv)
  ultimately show ?thesis
    by (auto simp: delete_person_def)
qed

theorem delete_person_removes_exactly_witness:
  "map name (persons (delete_person ''Bob'' ledger_alice_bob)) = [''Alice''] \<and>
   delete_person ''Carol'' ledger_alice_bob = ledger_alice_bob"
proof -
  have h: "\<forall>p\<in>set (persons ledger_alice_bob). name p \<noteq> ''Carol''"
    by (simp add: ledger_alice_bob_def)
  have e: "map name (persons (delete_person ''Bob'' ledger_alice_bob)) = [''Alice'']"
    by (simp add: delete_person_def ledger_alice_bob_def)
  show ?thesis
    using delete_person_removes_exactly [of "''Carol''" ledger_alice_bob] h e by blast
qed

end
